theory Spec2Isabelle
  imports Main "HOL-Library.Sublist"
begin

section \<open>Go strings and the library functions the parser calls\<close>

text \<open>
  A Go string is a sequence of bytes, and every index in the parser is a byte index, so a
  template is a \<^typ>\<open>string\<close> (a list of 8-bit characters). The unsigned result of an
  index search that Go reports as \<open>-1\<close> is \<open>None\<close> here. A slice expression \<open>s[a:b]\<close>
  panics in Go unless \<open>a \<le> b \<le> len(s)\<close>; \<open>substr\<close> is the slice itself, and every
  place where the bounds are not evident carries an explicit test that yields \<open>Panic\<close>.
\<close>

abbreviation NL :: char where
  "NL \<equiv> CHR 0x0A"

definition substr :: "string \<Rightarrow> nat \<Rightarrow> nat \<Rightarrow> string" where
  "substr s a b = take (b - a) (drop a s)"

text \<open>\<open>strings.Index(s, substr)\<close>: the first byte index at which \<open>sub\<close> occurs.\<close>

fun strIndex :: "string \<Rightarrow> string \<Rightarrow> nat option" where
  "strIndex [] sub = (if sub = [] then Some 0 else None)"
| "strIndex (c # cs) sub =
     (if prefix sub (c # cs) then Some 0 else map_option Suc (strIndex cs sub))"

text \<open>\<open>nextIndex(s, start, substr)\<close> of the source: \<open>strings.Index\<close> on \<open>s[start:]\<close>.\<close>

definition nextIndex :: "string \<Rightarrow> nat \<Rightarrow> string \<Rightarrow> nat option" where
  "nextIndex s start sub = map_option (\<lambda>i. start + i) (strIndex (drop start s) sub)"

text \<open>\<open>strings.IndexByte(s, '\n')\<close>, and \<open>indexNextLine\<close> of the source built on it.\<close>

fun indexByte :: "string \<Rightarrow> char \<Rightarrow> nat option" where
  "indexByte [] b = None"
| "indexByte (c # cs) b = (if c = b then Some 0 else map_option Suc (indexByte cs b))"

definition indexNextLine :: "string \<Rightarrow> nat" where
  "indexNextLine s = (case indexByte s NL of None \<Rightarrow> length s | Some i \<Rightarrow> i + 1)"

text \<open>\<open>strings.Count(s, "\n")\<close>.\<close>

definition countNL :: "string \<Rightarrow> nat" where
  "countNL s = length (filter (\<lambda>c. c = NL) s)"

text \<open>\<open>strings.CutPrefix\<close> and \<open>strings.CutSuffix\<close>; \<open>None\<close> when the affix is absent.\<close>

definition cutPrefix :: "string \<Rightarrow> string \<Rightarrow> string option" where
  "cutPrefix s p = (if prefix p s then Some (drop (length p) s) else None)"

definition cutSuffix :: "string \<Rightarrow> string \<Rightarrow> string option" where
  "cutSuffix s p = (if suffix p s then Some (take (length s - length p) s) else None)"

subsection \<open>Unicode white space\<close>

text \<open>
  \<open>unicode.IsSpace\<close> holds of the code points U+0009..U+000D, U+0020, U+0085, U+00A0,
  U+1680, U+2000..U+200A, U+2028, U+2029, U+202F, U+205F and U+3000. The \<open>strings\<close>
  functions decode UTF-8 and test each rune; an invalid byte decodes to U+FFFD, which
  is no space. A rune is a space exactly when the bytes at that place are the UTF-8
  encoding of one of these code points, and the bytes skipped after a valid leading byte
  are continuation bytes, which start no encoding; so the searches below look at the
  encodings directly.
\<close>

definition whiteSpaceEncodings :: "string list" where
  "whiteSpaceEncodings =
     [[CHR 0x09], [CHR 0x0A], [CHR 0x0B], [CHR 0x0C], [CHR 0x0D], [CHR 0x20],
      [CHR 0xC2, CHR 0x85], [CHR 0xC2, CHR 0xA0], [CHR 0xE1, CHR 0x9A, CHR 0x80],
      [CHR 0xE2, CHR 0x80, CHR 0x80], [CHR 0xE2, CHR 0x80, CHR 0x81],
      [CHR 0xE2, CHR 0x80, CHR 0x82], [CHR 0xE2, CHR 0x80, CHR 0x83],
      [CHR 0xE2, CHR 0x80, CHR 0x84], [CHR 0xE2, CHR 0x80, CHR 0x85],
      [CHR 0xE2, CHR 0x80, CHR 0x86], [CHR 0xE2, CHR 0x80, CHR 0x87],
      [CHR 0xE2, CHR 0x80, CHR 0x88], [CHR 0xE2, CHR 0x80, CHR 0x89],
      [CHR 0xE2, CHR 0x80, CHR 0x8A], [CHR 0xE2, CHR 0x80, CHR 0xA8],
      [CHR 0xE2, CHR 0x80, CHR 0xA9], [CHR 0xE2, CHR 0x80, CHR 0xAF],
      [CHR 0xE2, CHR 0x81, CHR 0x9F], [CHR 0xE3, CHR 0x80, CHR 0x80]]"

text \<open>The category Zs (space separators) and the tab, as \<open>lineIndentation\<close> tests them.\<close>

definition indentEncodings :: "string list" where
  "indentEncodings =
     [[CHR 0x09], [CHR 0x20], [CHR 0xC2, CHR 0xA0], [CHR 0xE1, CHR 0x9A, CHR 0x80],
      [CHR 0xE2, CHR 0x80, CHR 0x80], [CHR 0xE2, CHR 0x80, CHR 0x81],
      [CHR 0xE2, CHR 0x80, CHR 0x82], [CHR 0xE2, CHR 0x80, CHR 0x83],
      [CHR 0xE2, CHR 0x80, CHR 0x84], [CHR 0xE2, CHR 0x80, CHR 0x85],
      [CHR 0xE2, CHR 0x80, CHR 0x86], [CHR 0xE2, CHR 0x80, CHR 0x87],
      [CHR 0xE2, CHR 0x80, CHR 0x88], [CHR 0xE2, CHR 0x80, CHR 0x89],
      [CHR 0xE2, CHR 0x80, CHR 0x8A], [CHR 0xE2, CHR 0x80, CHR 0xAF],
      [CHR 0xE2, CHR 0x81, CHR 0x9F], [CHR 0xE3, CHR 0x80, CHR 0x80]]"

text \<open>The byte length of the rune of the table encoded at the head of \<open>s\<close>, or 0.\<close>

definition headLen :: "string list \<Rightarrow> string \<Rightarrow> nat" where
  "headLen encs s = (case filter (\<lambda>e. prefix e s) encs of [] \<Rightarrow> 0 | e # _ \<Rightarrow> length e)"

text \<open>The same for the last rune of \<open>s\<close> (\<open>utf8.DecodeLastRuneInString\<close>).\<close>

definition lastLen :: "string list \<Rightarrow> string \<Rightarrow> nat" where
  "lastLen encs s = (case filter (\<lambda>e. suffix e s) encs of [] \<Rightarrow> 0 | e # _ \<Rightarrow> length e)"

text \<open>\<open>strings.IndexFunc(s, unicode.IsSpace)\<close>.\<close>

fun indexSpace :: "string \<Rightarrow> nat option" where
  "indexSpace [] = None"
| "indexSpace (c # cs) =
     (if 0 < headLen whiteSpaceEncodings (c # cs) then Some 0
      else map_option Suc (indexSpace cs))"

text \<open>
  The number of leading bytes of \<open>s\<close> that are runes of the table: what
  \<open>strings.IndexFunc\<close> returns for the negated test, with \<open>len(s)\<close> in place of \<open>-1\<close>.
\<close>

function spanLen :: "string list \<Rightarrow> string \<Rightarrow> nat" where
  "spanLen encs s =
     (let n = headLen encs s in
      if n = 0 \<or> length s < n then 0 else n + spanLen encs (drop n s))"
  by pat_completeness auto
termination
  by (relation "measure (\<lambda>(encs, s). length s)") auto

text \<open>\<open>isSpace\<close> of the source: no rune of \<open>s\<close> is a non-space.\<close>

definition isSpace :: "string \<Rightarrow> bool" where
  "isSpace s = (spanLen whiteSpaceEncodings s = length s)"

text \<open>\<open>lineIndentation\<close> of the source: the longest prefix of Zs runes and tabs.\<close>

definition lineIndentation :: "string \<Rightarrow> string" where
  "lineIndentation line = take (spanLen indentEncodings line) line"

text \<open>\<open>strings.TrimSpace\<close>: the leading space runes go first, then the trailing ones.\<close>

function trimRight :: "string \<Rightarrow> string" where
  "trimRight s =
     (let n = lastLen whiteSpaceEncodings s in
      if n = 0 \<or> length s < n then s else trimRight (take (length s - n) s))"
  by pat_completeness auto
termination
  by (relation "measure length") auto

definition TrimSpace :: "string \<Rightarrow> string" where
  "TrimSpace s = trimRight (drop (spanLen whiteSpaceEncodings s) s)"

section \<open>The tag model\<close>

text \<open>
  \<open>tagType\<close> and \<open>tag\<close> of the source. Deep equality of tags (\<open>tagsEqual\<close>, which
  compares the type, both strings and, through \<open>slices.EqualFunc\<close>, the bodies) is the
  equality of this datatype.
\<close>

datatype tagType =
  Literal | Variable | RawVariable | Section | InvertedSection | Partial | Block | Parent
  | IndentPoint

datatype tag = Tag (tag_tt: tagType) (tag_s: string) (tag_indent: string) (tag_body: "tag list")

fun tagsEqual :: "tag \<Rightarrow> tag \<Rightarrow> bool" where
  "tagsEqual (Tag tt1 s1 indent1 body1) (Tag tt2 s2 indent2 body2) =
     (if tt1 \<noteq> tt2 \<or> s1 \<noteq> s2 \<or> indent1 \<noteq> indent2 then False
      else list_all2 tagsEqual body1 body2)"

text \<open>\<open>walkTags\<close>: all tags of a list in pre-order.\<close>

fun walkTags :: "tag list \<Rightarrow> tag list" where
  "walkTags [] = []"
| "walkTags (Tag tt s indent body # ts) = Tag tt s indent body # walkTags body @ walkTags ts"

section \<open>Errors\<close>

text \<open>
  The errors the source builds with \<open>errors.New\<close> and \<open>fmt.Errorf\<close>, one constructor
  for each message; \<open>AtLine n e\<close> is the prefix \<open>"%d: %v"\<close>. \<open>Panic\<close> is not a
  Go error: it stands for a run-time panic on an index or a slice out of range.
\<close>

datatype error =
  Panic
  | UnclosedTag
  | UnclosedComment
  | NoFinalEquals string string
  | SetDelimEmpty
  | SetDelimMissingEnd
  | SetDelimTooMany
  | Unclosed string
  | EmptyTag
  | ExtraWords string
  | WithoutOpening string string string
  | Mismatched string string string string nat
  | AtLine nat error
  | PartialError string error
  | LoadError string

section \<open>The lexer\<close>

text \<open>
  The loop of \<open>cutTag\<close> that looks for the end delimiter, started at \<open>tagInnerStart\<close>.
  The result is \<open>tagInnerEnd\<close> where the delimiter was found, or \<open>None\<close> when the loop
  ran to the end (\<open>tagEnd < 0\<close>). The byte \<open>s[tagInnerEnd]\<close> is out of range only for an
  empty end delimiter.
\<close>

function findTagEnd :: "string \<Rightarrow> bool \<Rightarrow> string \<Rightarrow> nat \<Rightarrow> error + nat option" where
  "findTagEnd s isComment endDelim tagInnerEnd =
     (if tagInnerEnd + length endDelim \<le> length s then
        if length s \<le> tagInnerEnd then Inl Panic
        else if s ! tagInnerEnd = NL \<and> \<not> isComment then Inl UnclosedTag
        else if substr s tagInnerEnd (tagInnerEnd + length endDelim) = endDelim
          then Inr (Some tagInnerEnd)
        else findTagEnd s isComment endDelim (Suc tagInnerEnd)
      else Inr None)"
  by pat_completeness auto
termination
  by (relation "measure (\<lambda>(s, isComment, endDelim, tagInnerEnd). length s - tagInnerEnd)") auto

text \<open>The end delimiter stands at index \<open>q\<close> of \<open>s\<close>.\<close>

definition closesAt :: "string \<Rightarrow> string \<Rightarrow> nat \<Rightarrow> bool" where
  "closesAt s ed q = (q + length ed \<le> length s \<and> substr s q (q + length ed) = ed)"

text \<open>
  \<open>cutTag\<close>: the special byte (0 for none), the key and the index after the tag.
\<close>

definition cutTag :: "string \<Rightarrow> nat \<Rightarrow> string \<Rightarrow> string \<Rightarrow> error + (char \<times> string \<times> nat)" where
  "cutTag s tagStart startDelim endDelim =
     (let tagInnerStart = tagStart + length startDelim in
      if length s < tagInnerStart then Inl Panic
      else
        let isComment = prefix ''!'' (drop tagInnerStart s) in
        case findTagEnd s isComment endDelim tagInnerStart of
          Inl e \<Rightarrow> Inl e
        | Inr None \<Rightarrow> Inl (if isComment then UnclosedComment else UnclosedTag)
        | Inr (Some tagInnerEnd) \<Rightarrow>
            let tagEnd = tagInnerEnd + length endDelim;
                isDefault = (startDelim = ''{{'' \<and> endDelim = ''}}'')
            in
            if isDefault \<and> s ! tagInnerStart = CHR ''{'' \<and> prefix ''}'' (drop tagEnd s)
            then Inr (CHR ''&'', TrimSpace (substr s (tagInnerStart + 1) tagInnerEnd), tagEnd + 1)
            else
              let inner = substr s tagInnerStart tagInnerEnd in
              case cutPrefix inner ''='' of
                Some inner1 \<Rightarrow>
                  (case cutSuffix inner1 ''='' of
                     None \<Rightarrow> Inl (NoFinalEquals (substr s tagStart tagEnd) endDelim)
                   | Some inner2 \<Rightarrow> Inr (CHR ''='', TrimSpace inner2, tagEnd))
              | None \<Rightarrow>
                  if 1 < length inner \<and> hd inner \<in> set ''#^!<>$/&''
                  then Inr (hd inner, TrimSpace (tl inner), tagEnd)
                  else Inr (CHR 0x00, TrimSpace inner, tagEnd))"

text \<open>\<open>splitSetDelimiterTag\<close>: the two delimiters of a set delimiter tag.\<close>

definition splitSetDelimiterTag :: "string \<Rightarrow> error + (string \<times> string)" where
  "splitSetDelimiterTag s =
     (case indexSpace s of
        None \<Rightarrow> Inl SetDelimMissingEnd
      | Some i \<Rightarrow>
          if i = 0 then Inl SetDelimEmpty
          else
            let j = i + spanLen whiteSpaceEncodings (drop i s) in
            if length s \<le> j then Inl SetDelimMissingEnd
            else
              (case indexSpace (drop j s) of
                 Some k \<Rightarrow> Inl SetDelimTooMany
               | None \<Rightarrow> Inr (take i s, drop j s)))"

text \<open>
  \<open>elementEnd\<close>: the index after the end tag that matches the start tag \<open>name\<close>, searched
  from \<open>i\<close> with \<open>level\<close> open tags of that name. The loop returns nothing when it
  does not advance, so the result is an option and \<open>None\<close> is a loop that runs forever.
\<close>

partial_function (option) elementEndLoop ::
  "string \<Rightarrow> string \<Rightarrow> nat \<Rightarrow> nat \<Rightarrow> string \<Rightarrow> string \<Rightarrow> (error + nat) option" where
  "elementEndLoop name s level i startDelim endDelim =
     (if 0 < level then
        if length s < i then Some (Inl Panic)
        else
          case nextIndex s i startDelim of
            None \<Rightarrow> Some (Inl (Unclosed name))
          | Some tagStart \<Rightarrow>
              (case cutTag s tagStart startDelim endDelim of
                 Inl e \<Rightarrow> Some (Inl (Unclosed name))
               | Inr (special, key, tagEnd) \<Rightarrow>
                   if special \<in> set ''#^$<'' then
                     elementEndLoop name s (if key = name then level + 1 else level) tagEnd
                       startDelim endDelim
                   else if special = CHR ''/'' then
                     elementEndLoop name s (if key = name then level - 1 else level) tagEnd
                       startDelim endDelim
                   else if special = CHR ''='' then
                     (case splitSetDelimiterTag key of
                        Inl e \<Rightarrow> Some (Inl e)
                      | Inr (sd, ed) \<Rightarrow> elementEndLoop name s level tagEnd sd ed)
                   else elementEndLoop name s level tagEnd startDelim endDelim)
      else Some (Inr i))"

declare elementEndLoop.simps [code]

definition elementEnd :: "string \<Rightarrow> string \<Rightarrow> nat \<Rightarrow> string \<Rightarrow> string \<Rightarrow> (error + nat) option" where
  "elementEnd name s tagEnd startDelim endDelim =
     elementEndLoop name s 1 tagEnd startDelim endDelim"

section \<open>The parser\<close>

text \<open>
  \<open>scope\<close> of \<open>parse\<close>. In the source \<open>slice\<close> points to the slice that receives the
  new tags: \<open>result\<close> for the bottom scope, the body of the opening tag otherwise, and
  that tag is appended to the enclosing slice when the scope opens. Here \<open>slice\<close> holds
  the tags appended so far, and the opening tag with this body is appended to the
  enclosing slice when the scope closes. Nothing is appended to the enclosing slice
  while the inner scope is open, and \<open>parse\<close> returns \<open>result\<close> only when every scope is
  closed, so the returned tree is the same. The stack is kept with its top at the head.
\<close>

record scope =
  start :: tag
  lineno :: nat
  slice :: "tag list"
  standalone :: bool

definition zeroTag :: tag where
  "zeroTag = Tag Literal [] [] []"

definition rootScope :: scope where
  "rootScope = \<lparr>start = zeroTag, lineno = 0, slice = [], standalone = False\<rparr>"

text \<open>\<open>*curr = append(*curr, t)\<close> for \<open>curr\<close> the slice of the top scope.\<close>

fun appendTag :: "tag \<Rightarrow> scope list \<Rightarrow> scope list" where
  "appendTag t [] = []"
| "appendTag t (tos # rest) = tos\<lparr>slice := slice tos @ [t]\<rparr> # rest"

definition appendLiteral :: "string \<Rightarrow> scope list \<Rightarrow> scope list" where
  "appendLiteral s stk = (if s \<noteq> [] then appendTag (Tag Literal s [] []) stk else stk)"

definition newScope :: "tag \<Rightarrow> nat \<Rightarrow> scope list \<Rightarrow> scope list" where
  "newScope newTag ln stk =
     \<lparr>start = newTag, lineno = ln, slice = [], standalone = False\<rparr> # stk"

text \<open>The tag that a closed scope leaves in the enclosing slice.\<close>

definition closedTag :: "scope \<Rightarrow> tag" where
  "closedTag sc =
     Tag (tag_tt (start sc)) (tag_s (start sc)) (tag_indent (start sc)) (slice sc)"

text \<open>\<open>dedent\<close>: the scopes are visited from the bottom of the stack.\<close>

fun dedentScopes :: "scope list \<Rightarrow> string \<Rightarrow> string" where
  "dedentScopes [] s = s"
| "dedentScopes (sc # scs) s =
     (if tag_tt (start sc) \<noteq> Block then dedentScopes scs s
      else (case cutPrefix s (tag_indent (start sc)) of
              Some s1 \<Rightarrow> dedentScopes scs s1
            | None \<Rightarrow> s))"

definition dedent :: "scope list \<Rightarrow> string \<Rightarrow> string" where
  "dedent stk s = dedentScopes (rev stk) s"

text \<open>The variables of \<open>parse\<close> that change while the tags of one line are processed.\<close>

record pstate =
  stack :: "scope list"
  startDelim :: string
  endDelim :: string
  curLine :: nat
  eol :: nat
  prevEnd :: nat

abbreviation indentPointTag :: tag where
  "indentPointTag \<equiv> Tag IndentPoint [] [] []"

text \<open>
  The first part of the body of the inner loop: the tag is cut, the line variables are
  moved past a tag that spans lines, and the key is checked. The last test is the
  condition under which the slices \<open>s[prevEnd:tagStart]\<close>, \<open>s[tagStart:tagEnd]\<close> and
  \<open>s[tagEnd:eol]\<close> do not panic.
\<close>

definition tagHead :: "string \<Rightarrow> pstate \<Rightarrow> nat \<Rightarrow> error + (char \<times> string \<times> nat \<times> pstate)" where
  "tagHead s st tagStart =
     (case cutTag s tagStart (startDelim st) (endDelim st) of
        Inl e \<Rightarrow> Inl (AtLine (curLine st) e)
      | Inr (special, key, tagEnd) \<Rightarrow>
          if \<not> (tagStart \<le> tagEnd \<and> tagEnd \<le> length s) then Inl Panic
          else
            let n = countNL (substr s tagStart tagEnd);
                st1 = (if 0 < n
                       then st\<lparr>curLine := curLine st + n,
                               eol := tagEnd + indexNextLine (drop tagEnd s)\<rparr>
                       else st)
            in
            if special \<noteq> CHR ''!'' \<and> special \<noteq> CHR ''='' \<and> key = []
              then Inl (AtLine (curLine st1) EmptyTag)
            else if special \<noteq> CHR ''!'' \<and> special \<noteq> CHR ''='' \<and> indexSpace key \<noteq> None
              then Inl (AtLine (curLine st1) (ExtraWords (take (the (indexSpace key)) key)))
            else if \<not> (prevEnd st1 \<le> tagStart \<and> tagEnd \<le> eol st1 \<and> eol st1 \<le> length s)
              then Inl Panic
            else Inr (special, key, tagEnd, st1))"

text \<open>
  The \<open>switch special\<close> of the inner loop; the result carries \<open>ignoreRestOfLine\<close>, which
  the closing tag of a parent sets from the scope.
\<close>

definition applyTag ::
  "char \<Rightarrow> string \<Rightarrow> string \<Rightarrow> bool \<Rightarrow> bool \<Rightarrow> pstate \<Rightarrow> error + (pstate \<times> bool)" where
  "applyTag special key indent isStandalone ignoreRestOfLine st =
     (if special = CHR ''#'' then
        Inr (st\<lparr>stack := newScope (Tag Section key [] []) (curLine st) (stack st)\<rparr>,
             ignoreRestOfLine)
      else if special = CHR ''^'' then
        Inr (st\<lparr>stack := newScope (Tag InvertedSection key [] []) (curLine st) (stack st)\<rparr>,
             ignoreRestOfLine)
      else if special = CHR ''!'' then Inr (st, ignoreRestOfLine)
      else if special = CHR ''>'' then
        Inr (st\<lparr>stack := appendTag (Tag Partial key indent []) (stack st)\<rparr>, ignoreRestOfLine)
      else if special = CHR ''$'' then
        (let stk = newScope (Tag Block key indent []) (curLine st) (stack st) in
         Inr (st\<lparr>stack := (if \<not> ignoreRestOfLine then appendTag indentPointTag stk else stk)\<rparr>,
              ignoreRestOfLine))
      else if special = CHR ''<'' then
        (case newScope (Tag Parent key indent []) (curLine st) (stack st) of
           [] \<Rightarrow> Inl Panic
         | tos # rest \<Rightarrow>
             Inr (st\<lparr>stack := tos\<lparr>standalone := isStandalone\<rparr> # rest\<rparr>, ignoreRestOfLine))
      else if special = CHR ''/'' then
        (case stack st of
           [] \<Rightarrow> Inl Panic
         | [bottom] \<Rightarrow>
             Inl (AtLine (curLine st) (WithoutOpening (startDelim st) key (endDelim st)))
         | tos # next # rest \<Rightarrow>
             if key \<noteq> tag_s (start tos) then
               Inl (AtLine (curLine st)
                     (Mismatched (startDelim st) key (endDelim st) (tag_s (start tos))
                        (lineno tos)))
             else
               Inr (st\<lparr>stack := appendTag (closedTag tos) (next # rest)\<rparr>,
                    if tag_tt (start tos) = Parent then standalone tos else ignoreRestOfLine))
      else if special = CHR ''='' then
        (case splitSetDelimiterTag key of
           Inl e \<Rightarrow> Inl (AtLine (curLine st) e)
         | Inr (sd, ed) \<Rightarrow> Inr (st\<lparr>startDelim := sd, endDelim := ed\<rparr>, ignoreRestOfLine))
      else if special = CHR ''&'' then
        Inr (st\<lparr>stack := appendTag (Tag RawVariable key [] []) (stack st)\<rparr>, ignoreRestOfLine)
      else
        Inr (st\<lparr>stack := appendTag (Tag Variable key [] []) (stack st)\<rparr>, ignoreRestOfLine))"

text \<open>
  Whether the tag at hand is a standalone pair tag: a parent, or a block that is not
  directly inside a parent (a parameter).
\<close>

definition isStandalonePairTag :: "char \<Rightarrow> scope list \<Rightarrow> bool" where
  "isStandalonePairTag special stk =
     (special = CHR ''<'' \<or>
      (special = CHR ''$'' \<and> (case stk of [] \<Rightarrow> True | tos # rest \<Rightarrow> tag_tt (start tos) \<noteq> Parent)))"

text \<open>
  The rest of the body of the inner loop, from the standalone test on, for a given
  \<open>trailingText\<close>. The result is the new state and the index of the next tag of the
  line; \<open>None\<close> ends the loop, as \<open>break\<close> and a negative \<open>tagStart\<close> do.
  The expression \<open>stack[len(stack)-2]\<close> panics on a stack of one scope.
\<close>

definition tagBody ::
  "string \<Rightarrow> pstate \<Rightarrow> nat \<Rightarrow> char \<Rightarrow> string \<Rightarrow> nat \<Rightarrow> string \<Rightarrow> error + (pstate \<times> nat option)" where
  "tagBody s st tagStart special key tagEnd trailingText =
     (case stack st of
        [] \<Rightarrow> Inl Panic
      | tos # rest \<Rightarrow>
          let leadingText = substr s (prevEnd st) tagStart;
              isParameter = (special = CHR ''$'' \<and> tag_tt (start tos) \<noteq> Parent);
              isArgument = (special = CHR ''$'' \<and> tag_tt (start tos) = Parent);
              pair = isStandalonePairTag special (stack st);
              isStandalone = (prevEnd st = 0 \<and> special \<noteq> CHR 0x00 \<and> special \<noteq> CHR ''&'' \<and>
                              isSpace leadingText \<and> isSpace trailingText);
              nextLine = ((isArgument \<or> isParameter \<and> isStandalone) \<and>
                          isSpace (substr s tagEnd (eol st)));
              ignoreRestOfLine = (isStandalone \<and> \<not> pair \<or> nextLine);
              indent = (if nextLine then lineIndentation (dedent (stack st) (drop (eol st) s))
                        else if isStandalone then leadingText else [])
          in
          if \<not> isStandalone \<and> prevEnd st = 0 \<and> tagStart = 0 \<and> special = CHR ''/'' \<and>
             tag_tt (start tos) = Block \<and> rest = []
            then Inl Panic
          else
            let stk1 =
                  (if isStandalone then stack st
                   else appendLiteral leadingText
                          (if prevEnd st = 0 \<and>
                              \<not> (tagStart = 0 \<and> special = CHR ''/'' \<and>
                                 tag_tt (start tos) = Block \<and>
                                 tag_tt (start (hd rest)) = Parent)
                           then appendTag indentPointTag (stack st) else stack st))
            in
            (case applyTag special key indent isStandalone ignoreRestOfLine (st\<lparr>stack := stk1\<rparr>) of
               Inl e \<Rightarrow> Inl e
             | Inr (st2, ignore) \<Rightarrow>
                 if ignore then Inr (st2\<lparr>prevEnd := eol st2\<rparr>, None)
                 else Inr (st2\<lparr>prevEnd := tagEnd\<rparr>,
                           nextIndex (take (eol st2) s) tagEnd (startDelim st2))))"

text \<open>
  One pass of the inner loop. For a standalone pair tag the trailing text is the text
  after the matching end tag, which \<open>elementEnd\<close> finds.
\<close>

definition tagStep :: "string \<Rightarrow> pstate \<Rightarrow> nat \<Rightarrow> (error + (pstate \<times> nat option)) option" where
  "tagStep s st tagStart =
     (case tagHead s st tagStart of
        Inl e \<Rightarrow> Some (Inl e)
      | Inr (special, key, tagEnd, st1) \<Rightarrow>
          if isStandalonePairTag special (stack st1) then
            (case elementEnd key s tagEnd (startDelim st1) (endDelim st1) of
               None \<Rightarrow> None
             | Some (Inl e) \<Rightarrow> Some (Inl (AtLine (curLine st1) e))
             | Some (Inr i) \<Rightarrow>
                 if length s < i then Some (Inl Panic)
                 else Some (tagBody s st1 tagStart special key tagEnd
                              (substr s i (i + indexNextLine (drop i s)))))
          else Some (tagBody s st1 tagStart special key tagEnd (substr s tagEnd (eol st1))))"

text \<open>The inner loop \<open>for tagStart >= 0\<close>.\<close>

partial_function (option) tagLoop ::
  "string \<Rightarrow> pstate \<Rightarrow> nat option \<Rightarrow> (error + pstate) option" where
  "tagLoop s st tagStart =
     (case tagStart of
        None \<Rightarrow> Some (Inr st)
      | Some ts \<Rightarrow>
          (case tagStep s st ts of
             None \<Rightarrow> None
           | Some (Inl e) \<Rightarrow> Some (Inl e)
           | Some (Inr (st1, next)) \<Rightarrow> tagLoop s st1 next))"

declare tagLoop.simps [code]

text \<open>
  The outer loop \<open>for len(s) > 0\<close>, one line at a time, and the test for open scopes
  after it.
\<close>

partial_function (option) parseLoop ::
  "string \<Rightarrow> scope list \<Rightarrow> string \<Rightarrow> string \<Rightarrow> nat \<Rightarrow> (error + tag list) option" where
  "parseLoop s0 stk sd ed ln =
     (if 0 < length s0 then
        let s = dedent stk s0;
            e0 = indexNextLine s;
            tagStart = strIndex (take e0 s) sd;
            stk1 = (if tagStart = None then appendTag indentPointTag stk else stk)
        in
        (case tagLoop s \<lparr>stack = stk1, startDelim = sd, endDelim = ed, curLine = ln,
                          eol = e0, prevEnd = 0\<rparr> tagStart of
           None \<Rightarrow> None
         | Some (Inl e) \<Rightarrow> Some (Inl e)
         | Some (Inr st) \<Rightarrow>
             if \<not> (prevEnd st \<le> eol st \<and> eol st \<le> length s) then Some (Inl Panic)
             else parseLoop (drop (eol st) s)
                    (appendLiteral (substr s (prevEnd st) (eol st)) (stack st))
                    (startDelim st) (endDelim st) (curLine st + 1))
      else
        (case stk of
           [] \<Rightarrow> Some (Inl Panic)
         | [bottom] \<Rightarrow> Some (Inr (slice bottom))
         | tos # next # rest \<Rightarrow> Some (Inl (AtLine (lineno tos) (Unclosed (tag_s (start tos)))))))"

declare parseLoop.simps [code]

definition parse :: "string \<Rightarrow> (error + tag list) option" where
  "parse s = parseLoop s [rootScope] ''{{'' ''}}'' 1"

section \<open>Properties of the lexer\<close>

declare findTagEnd.simps [simp del]
declare spanLen.simps [simp del]
declare trimRight.simps [simp del]

lemma substr_eq_closesAt:
  "q + length ed \<le> length s \<Longrightarrow> (substr s q (q + length ed) = ed) = closesAt s ed q"
  by (simp add: closesAt_def)

lemma findTagEnd_newline:
  "i0 \<le> p \<Longrightarrow> p < length s \<Longrightarrow> s ! p = NL \<Longrightarrow>
   (\<forall>q. i0 \<le> q \<and> q < p \<longrightarrow> \<not> closesAt s ed q) \<Longrightarrow>
   findTagEnd s False ed i0 = Inl UnclosedTag \<or> findTagEnd s False ed i0 = Inr None"
proof (induction s "False" ed i0 rule: findTagEnd.induct)
  case (1 s ed i)
  show ?case
  proof (cases "i + length ed \<le> length s")
    case False
    then show ?thesis by (subst (1 2) findTagEnd.simps) simp
  next
    case inr: True
    have lt: "i < length s" using 1 by simp
    show ?thesis
    proof (cases "s ! i = NL")
      case True
      then show ?thesis using inr lt by (subst (1 2) findTagEnd.simps) simp
    next
      case False
      then have ip: "i < p" using 1(2,4) by (cases "i = p") auto
      then have nc: "\<not> closesAt s ed i" using 1(5) by simp
      then have ne: "substr s i (i + length ed) \<noteq> ed" using inr by (simp add: closesAt_def)
      have "findTagEnd s False ed (Suc i) = Inl UnclosedTag \<or> findTagEnd s False ed (Suc i) = Inr None"
        using 1 inr lt False ne ip by (intro "1.hyps") auto
      then show ?thesis using inr lt False ne by (subst (1 2) findTagEnd.simps) simp
    qed
  qed
qed

lemma findTagEnd_found:
  "i0 \<le> q \<Longrightarrow> q < length s \<Longrightarrow> closesAt s ed q \<Longrightarrow>
   \<exists>q'. findTagEnd s True ed i0 = Inr (Some q') \<and> i0 \<le> q' \<and> q' \<le> q \<and> closesAt s ed q'
       \<and> (\<forall>r. i0 \<le> r \<and> r < q' \<longrightarrow> \<not> closesAt s ed r)"
proof (induction s "True" ed i0 rule: findTagEnd.induct)
  case (1 s ed i)
  have inr: "i + length ed \<le> length s" using 1 by (simp add: closesAt_def)
  have lt: "i < length s" using 1 by simp
  show ?case
  proof (cases "closesAt s ed i")
    case True
    then show ?thesis using inr lt 1(2) by (subst findTagEnd.simps) (auto simp: closesAt_def)
  next
    case False
    then have iq: "i < q" using 1(2,4) by (cases "i = q") auto
    have ne: "substr s i (i + length ed) \<noteq> ed" using False inr by (simp add: closesAt_def)
    have "\<exists>q'. findTagEnd s True ed (Suc i) = Inr (Some q') \<and> Suc i \<le> q' \<and> q' \<le> q \<and> closesAt s ed q'
       \<and> (\<forall>r. Suc i \<le> r \<and> r < q' \<longrightarrow> \<not> closesAt s ed r)"
      using 1 inr lt ne iq by (intro "1.hyps") auto
    then obtain q' where q': "findTagEnd s True ed (Suc i) = Inr (Some q')" "Suc i \<le> q'" "q' \<le> q" "closesAt s ed q'"
       "\<forall>r. Suc i \<le> r \<and> r < q' \<longrightarrow> \<not> closesAt s ed r" by blast
    have "\<forall>r. i \<le> r \<and> r < q' \<longrightarrow> \<not> closesAt s ed r"
    proof (intro allI impI)
      fix r assume "i \<le> r \<and> r < q'"
      then show "\<not> closesAt s ed r" using False q'(5) by (cases "r = i") auto
    qed
    then show ?thesis using q' inr lt ne by (subst findTagEnd.simps) auto
  qed
qed

text \<open>
  Claim C8. When the tag is not a comment and a line break stands in its inner content
  before any end delimiter, \<open>cutTag\<close> returns the error "unclosed tag". When the tag is a
  comment, line breaks are allowed: \<open>cutTag\<close> succeeds with the index after the first end
  delimiter, whatever bytes stand before it.
\<close>

theorem cutTag_line_break:
  assumes "tagStart + length sd \<le> length s"
  shows "(\<not> prefix ''!'' (drop (tagStart + length sd) s) \<and>
          tagStart + length sd \<le> p \<and> p < length s \<and> s ! p = NL \<and>
          (\<forall>q. tagStart + length sd \<le> q \<and> q < p \<longrightarrow> \<not> closesAt s ed q)
          \<longrightarrow> cutTag s tagStart sd ed = Inl UnclosedTag)
       \<and> (prefix ''!'' (drop (tagStart + length sd) s) \<and>
          tagStart + length sd \<le> q \<and> closesAt s ed q \<and>
          (\<forall>r. tagStart + length sd \<le> r \<and> r < q \<longrightarrow> \<not> closesAt s ed r)
          \<longrightarrow> (\<exists>b key. cutTag s tagStart sd ed = Inr (b, key, q + length ed)))"
proof (intro conjI impI)
  assume h: "\<not> prefix ''!'' (drop (tagStart + length sd) s) \<and>
          tagStart + length sd \<le> p \<and> p < length s \<and> s ! p = NL \<and>
          (\<forall>q. tagStart + length sd \<le> q \<and> q < p \<longrightarrow> \<not> closesAt s ed q)"
  then have "findTagEnd s False ed (tagStart + length sd) = Inl UnclosedTag \<or>
             findTagEnd s False ed (tagStart + length sd) = Inr None"
    by (intro findTagEnd_newline[of _ p]) auto
  then show "cutTag s tagStart sd ed = Inl UnclosedTag"
    using h assms by (auto simp: cutTag_def Let_def)
next
  assume h: "prefix ''!'' (drop (tagStart + length sd) s) \<and>
          tagStart + length sd \<le> q \<and> closesAt s ed q \<and>
          (\<forall>r. tagStart + length sd \<le> r \<and> r < q \<longrightarrow> \<not> closesAt s ed r)"
  let ?i = "tagStart + length sd"
  from h obtain rest where dr: "drop ?i s = CHR ''!'' # rest" by (auto simp: prefix_def)
  then have lt: "?i < length s" by (metis drop_eq_Nil2 list.distinct(1) not_le)
  have bang: "s ! ?i = CHR ''!''" using dr lt by (metis hd_drop_conv_nth list.sel(1))
  have qlt: "q < length s"
  proof (cases "ed = []")
    case True
    then have "closesAt s ed ?i" using lt by (simp add: closesAt_def substr_def)
    then have "q = ?i" using h by (cases "?i = q") auto
    then show ?thesis using lt by simp
  next
    case False
    then show ?thesis using h by (cases ed) (auto simp: closesAt_def)
  qed
  obtain q' where q': "findTagEnd s True ed ?i = Inr (Some q')" "?i \<le> q'" "q' \<le> q" "closesAt s ed q'"
    using findTagEnd_found[of ?i q s ed] h qlt by blast
  have "q' = q" using q' h by (cases "q' = q") auto
  have inner: "substr s ?i q = [] \<or> hd (substr s ?i q) = CHR ''!''"
    using dr by (cases "q - ?i") (auto simp: substr_def)
  have nocut: "cutPrefix (substr s ?i q) ''='' = None"
    using inner dr by (cases "q - ?i") (auto simp: cutPrefix_def substr_def)
  show "\<exists>b key. cutTag s tagStart sd ed = Inr (b, key, q + length ed)"
    using q'(1) \<open>q' = q\<close> h bang nocut assms
    by (auto simp: cutTag_def Let_def)
qed


text \<open>Both parts at concrete tags: a section tag and a comment broken over two lines.\<close>

theorem cutTag_line_break_witness:
  "cutTag (''{{#a'' @ [NL] @ ''b}}'') 0 ''{{'' ''}}'' = Inl UnclosedTag \<and>
   (\<exists>b key. cutTag (''{{! a'' @ [NL] @ ''b }}'') 0 ''{{'' ''}}'' = Inr (b, key, 10))"
proof -
  let ?s1 = "''{{#a'' @ [NL] @ ''b}}''"
  let ?s2 = "''{{! a'' @ [NL] @ ''b }}''"
  have r1: "\<And>q::nat. 2 \<le> q \<and> q < 4 \<Longrightarrow> q \<in> {2, 3}" by auto
  have n1: "\<forall>q. 0 + length ''{{'' \<le> q \<and> q < 4 \<longrightarrow> \<not> closesAt ?s1 ''}}'' q"
  proof (intro allI impI)
    fix q :: nat assume "0 + length ''{{'' \<le> q \<and> q < 4"
    then have "q \<in> {2, 3}" using r1 by simp
    then show "\<not> closesAt ?s1 ''}}'' q" by (auto simp: closesAt_def substr_def)
  qed
  have r2: "\<And>r::nat. 2 \<le> r \<and> r < 8 \<Longrightarrow> r \<in> {2, 3, 4, 5, 6, 7}" by auto
  have n2: "\<forall>r. 0 + length ''{{'' \<le> r \<and> r < 8 \<longrightarrow> \<not> closesAt ?s2 ''}}'' r"
  proof (intro allI impI)
    fix r :: nat assume "0 + length ''{{'' \<le> r \<and> r < 8"
    then have "r \<in> {2, 3, 4, 5, 6, 7}" using r2 by simp
    then show "\<not> closesAt ?s2 ''}}'' r" by (auto simp: closesAt_def substr_def)
  qed
  have a: "cutTag ?s1 0 ''{{'' ''}}'' = Inl UnclosedTag"
    using cutTag_line_break [where tagStart = 0 and sd = "''{{''" and s = ?s1 and p = 4 and ed = "''}}''"] n1
    by simp
  have b: "\<exists>b key. cutTag ?s2 0 ''{{'' ''}}'' = Inr (b, key, 8 + length ''}}'')"
    using cutTag_line_break [where tagStart = 0 and sd = "''{{''" and s = ?s2 and q = 8 and ed = "''}}''"] n2
    by (simp add: closesAt_def substr_def)
  show ?thesis using a b by simp
qed

end
